theory Spec2Isabelle
  imports Complex_Main
begin

section \<open>Python values and exceptions\<close>

text \<open>
  The plugin is Python. Every \<^verbatim>\<open>raise\<close> of the source and of the libraries it calls is a
  value of type \<open>exn\<close>; a function that may raise returns \<open>exn + 'a\<close>, with \<open>Inl\<close> the
  exception. \<open>exn\<close> stands for the instances of Python's \<^verbatim>\<open>Exception\<close>, which is what the
  two \<^verbatim>\<open>except Exception\<close> handlers of the source catch.
\<close>

datatype exn =
    KeyError string
  | TypeError
  | AttributeError
  | ValueError
  | ArgsError
  | OtherError string

text \<open>
  What \<^verbatim>\<open>json.loads\<close> returns: \<^verbatim>\<open>None\<close>, a bool, an int, a float, a string, a list or a
  dict with string keys. A dict is an association list in iteration order. A finite float
  is given by its exact value; the literals \<^verbatim>\<open>NaN\<close> and \<^verbatim>\<open>Infinity\<close>, which the decoder
  accepts beyond JSON, are not represented.
\<close>

datatype pyval =
    PNone
  | PBool bool
  | PInt int
  | PFloat rat
  | PStr string
  | PList "pyval list"
  | PDict "(string \<times> pyval) list"

text \<open>\<^verbatim>\<open>x[k]\<close> for a string \<open>k\<close>: only a dict can be indexed by a string.\<close>

fun subscript :: "pyval \<Rightarrow> string \<Rightarrow> exn + pyval" where
  "subscript (PDict kvs) k = (case map_of kvs k of None \<Rightarrow> Inl (KeyError k) | Some v \<Rightarrow> Inr v)"
| "subscript _ k = Inl TypeError"

text \<open>\<^verbatim>\<open>x.items()\<close>: only a dict has the method.\<close>

fun items_of :: "pyval \<Rightarrow> exn + (string \<times> pyval) list" where
  "items_of (PDict kvs) = Inr kvs"
| "items_of _ = Inl AttributeError"

text \<open>
  \<^verbatim>\<open>for h in x\<close>: a list gives its elements, a dict its keys, a string its characters;
  nothing else is iterable.
\<close>

fun iterate :: "pyval \<Rightarrow> exn + pyval list" where
  "iterate (PList xs) = Inr xs"
| "iterate (PDict kvs) = Inr (map (\<lambda>kv. PStr (fst kv)) kvs)"
| "iterate (PStr s) = Inr (map (\<lambda>c. PStr [c]) s)"
| "iterate _ = Inl TypeError"

text \<open>A dict key must be hashable: lists and dicts are not.\<close>

fun hashable :: "pyval \<Rightarrow> bool" where
  "hashable (PList _) = False"
| "hashable (PDict _) = False"
| "hashable _ = True"

text \<open>
  Equality of dict keys is Python's \<^verbatim>\<open>==\<close>: the numbers compare by value across bool, int
  and float (\<^verbatim>\<open>True == 1 == 1.0\<close>), everything else hashable compares structurally.
\<close>

fun num_val :: "pyval \<Rightarrow> rat option" where
  "num_val (PBool b) = Some (if b then 1 else 0)"
| "num_val (PInt i) = Some (of_int i)"
| "num_val (PFloat q) = Some q"
| "num_val _ = None"

definition py_eq :: "pyval \<Rightarrow> pyval \<Rightarrow> bool" where
  "py_eq a b =
     (case (num_val a, num_val b) of
        (Some x, Some y) \<Rightarrow> x = y
      | (None, None) \<Rightarrow> a = b
      | _ \<Rightarrow> False)"

section \<open>The route spec\<close>

text \<open>
  \<^verbatim>\<open>route_spec\<close> is a dict from the CIDR to the list of host addresses: an association
  list without equal keys. \<^verbatim>\<open>route_spec[cidr] = hosts\<close> replaces the value of an equal key,
  which keeps its place and its key object, and appends a new key otherwise.
\<close>

type_synonym route_spec = "(pyval \<times> pyval list) list"

fun dict_set :: "route_spec \<Rightarrow> pyval \<Rightarrow> pyval list \<Rightarrow> route_spec" where
  "dict_set [] k v = [(k, v)]"
| "dict_set ((k', v') # rest) k v =
     (if py_eq k' k then (k', v) # rest else (k', v') # dict_set rest k v)"

text \<open>\<^verbatim>\<open>[h['ip'] for h in ...]\<close>: the first host without the field raises.\<close>

fun host_ips :: "pyval list \<Rightarrow> exn + pyval list" where
  "host_ips [] = Inr []"
| "host_ips (h # hs) =
     (case subscript h ''ip'' of
        Inl e \<Rightarrow> Inl e
      | Inr ip \<Rightarrow> (case host_ips hs of Inl e \<Rightarrow> Inl e | Inr ips \<Rightarrow> Inr (ip # ips)))"

text \<open>
  Lines 58 and 59 of \<^verbatim>\<open>romana.py\<close>, for one \<^verbatim>\<open>net_data\<close>:
  \<^verbatim>\<open>
  cidr  = net_data['groups']['cidr']
  hosts = [h['ip'] for h in net_data['groups']['hosts']]
  \<close>
\<close>

definition net_entry :: "pyval \<Rightarrow> exn + (pyval \<times> pyval list)" where
  "net_entry net_data =
     (case subscript net_data ''groups'' of
        Inl e \<Rightarrow> Inl e
      | Inr g \<Rightarrow>
     (case subscript g ''cidr'' of
        Inl e \<Rightarrow> Inl e
      | Inr cidr \<Rightarrow>
     (case subscript net_data ''groups'' of
        Inl e \<Rightarrow> Inl e
      | Inr g' \<Rightarrow>
     (case subscript g' ''hosts'' of
        Inl e \<Rightarrow> Inl e
      | Inr hs \<Rightarrow>
     (case iterate hs of
        Inl e \<Rightarrow> Inl e
      | Inr hl \<Rightarrow>
     (case host_ips hl of
        Inl e \<Rightarrow> Inl e
      | Inr hosts \<Rightarrow> Inr (cidr, hosts)))))))"

text \<open>
  The loop of lines 57 to 60 over \<^verbatim>\<open>d['networks'].items()\<close>, with the route spec built so
  far. Line 60, \<^verbatim>\<open>route_spec[cidr] = hosts\<close>, raises for an unhashable \<open>cidr\<close>.
\<close>

fun build_loop :: "(string \<times> pyval) list \<Rightarrow> route_spec \<Rightarrow> exn + route_spec" where
  "build_loop [] rs = Inr rs"
| "build_loop ((net_name, net_data) # rest) rs =
     (case net_entry net_data of
        Inl e \<Rightarrow> Inl e
      | Inr (cidr, hosts) \<Rightarrow>
          if hashable cidr then build_loop rest (dict_set rs cidr hosts) else Inl TypeError)"

text \<open>Lines 56 to 60: from the decoded document \<open>d\<close> to the route spec.\<close>

definition build_route_spec :: "pyval \<Rightarrow> exn + route_spec" where
  "build_route_spec d =
     (case subscript d ''networks'' of
        Inl e \<Rightarrow> Inl e
      | Inr nets \<Rightarrow>
     (case items_of nets of
        Inl e \<Rightarrow> Inl e
      | Inr kvs \<Rightarrow> build_loop kvs []))"

section \<open>The shape of a topology document\<close>

text \<open>
  The document the store holds has the shape
  \<^verbatim>\<open>{"networks": {<name>: {"groups": {"cidr": <string>, "hosts": [{"ip": ...}, ...]}}}}\<close>.
  The functions below read a document by its fields, with \<open>None\<close> for a field that is not
  there; they say what a well-formed document lists, independently of the loop above.
\<close>

fun field :: "pyval \<Rightarrow> string \<Rightarrow> pyval option" where
  "field (PDict kvs) k = map_of kvs k"
| "field _ k = None"

definition net_field :: "pyval \<Rightarrow> string \<Rightarrow> pyval option" where
  "net_field net_data k =
     (case field net_data ''groups'' of None \<Rightarrow> None | Some g \<Rightarrow> field g k)"

definition net_cidr :: "pyval \<Rightarrow> string option" where
  "net_cidr net_data =
     (case net_field net_data ''cidr'' of Some (PStr c) \<Rightarrow> Some c | _ \<Rightarrow> None)"

definition net_hosts :: "pyval \<Rightarrow> pyval list option" where
  "net_hosts net_data =
     (case net_field net_data ''hosts'' of
        Some (PList hs) \<Rightarrow> those (map (\<lambda>h. field h ''ip'') hs)
      | _ \<Rightarrow> None)"

definition doc_networks :: "pyval \<Rightarrow> (string \<times> pyval) list option" where
  "doc_networks d = (case field d ''networks'' of Some (PDict nets) \<Rightarrow> Some nets | _ \<Rightarrow> None)"

text \<open>
  Well-formed: a \<open>networks\<close> object whose entries each have a \<open>groups\<close> object with a
  \<open>cidr\<close> string and a \<open>hosts\<close> list of objects that carry an \<open>ip\<close> field.
\<close>

definition wf_net :: "pyval \<Rightarrow> bool" where
  "wf_net net_data = (net_cidr net_data \<noteq> None \<and> net_hosts net_data \<noteq> None)"

definition wf_topology :: "pyval \<Rightarrow> bool" where
  "wf_topology d =
     (case doc_networks d of None \<Rightarrow> False | Some nets \<Rightarrow> list_all (\<lambda>kv. wf_net (snd kv)) nets)"

text \<open>
  What a document lists: for each network entry, in order, its CIDR and the addresses of
  its hosts.
\<close>

definition listed :: "pyval \<Rightarrow> (pyval \<times> pyval list) option" where
  "listed net_data =
     (case (net_cidr net_data, net_hosts net_data) of
        (Some c, Some ips) \<Rightarrow> Some (PStr c, ips)
      | _ \<Rightarrow> None)"

definition doc_entries :: "pyval \<Rightarrow> (pyval \<times> pyval list) list" where
  "doc_entries d =
     (case doc_networks d of
        None \<Rightarrow> []
      | Some nets \<Rightarrow> List.map_filter (\<lambda>kv. listed (snd kv)) nets)"

text \<open>The scenario of the specification: one network with two hosts.\<close>

definition scenario_document :: pyval where
  "scenario_document =
     PDict [(''networks'',
       PDict [(''net1'',
         PDict [(''groups'',
           PDict [(''cidr'', PStr ''10.0.0.0/24''),
                  (''hosts'', PList [PDict [(''ip'', PStr ''10.0.0.1'')],
                                     PDict [(''ip'', PStr ''10.0.0.2'')]])])])])]"

definition scenario_route_spec :: route_spec where
  "scenario_route_spec = [(PStr ''10.0.0.0/24'', [PStr ''10.0.0.1'', PStr ''10.0.0.2''])]"

section \<open>The collaborators\<close>

text \<open>
  The plugin calls the etcd3 client library, \<^verbatim>\<open>json.loads\<close>, the route spec check of the
  host framework (\<^verbatim>\<open>common.parse_route_spec_config\<close>), the address check
  (\<^verbatim>\<open>utils.ip_check\<close>) and the queue of the host framework. None of them is part of the
  plugin: they are parameters. The store and the network have a state \<open>'w\<close> of their own,
  which every call to the client library may read and change, so that the same call can
  succeed once and raise the next time.

  A client object is given by its identity. The handle of a watch is the integer that the
  store gives to the watch and that \<^verbatim>\<open>add_watch_callback\<close> returns; etcd numbers the
  watches of a connection from 0.

  The check of the route spec receives the dict itself and may rewrite it in place: it
  raises, or it returns and leaves the dict as the second component says. The source
  discards what the check returns and goes on with the dict.
\<close>

type_synonym client = nat

record 'w env =
  etcd3_client :: "string \<Rightarrow> int \<Rightarrow> int \<Rightarrow> 'w \<Rightarrow> (exn + client) \<times> 'w"
  client_get :: "client \<Rightarrow> string \<Rightarrow> 'w \<Rightarrow> (exn + string option) \<times> 'w"
  client_status :: "client \<Rightarrow> 'w \<Rightarrow> exn option \<times> 'w"
  client_add_watch_callback :: "client \<Rightarrow> string \<Rightarrow> 'w \<Rightarrow> (exn + int) \<times> 'w"
  client_cancel_watch :: "client \<Rightarrow> int \<Rightarrow> 'w \<Rightarrow> exn option \<times> 'w"
  json_loads :: "string \<Rightarrow> exn + pyval"
  parse_route_spec_config :: "route_spec \<Rightarrow> exn + route_spec"

text \<open>The calls the plugin makes to its collaborators, in the order it makes them.\<close>

datatype call =
    CallClient string int int
  | CallGet client string
  | CallValidate route_spec
  | CallPut route_spec
  | CallStatus client
  | CallAddWatch client string
  | CallCancelWatch client int
  | CallThreadStart
  | CallJoin

section \<open>The plugin object\<close>

record conf =
  addr :: string
  port :: int

text \<open>
  The attributes of a \<^verbatim>\<open>Romana\<close> object, the content of the queue \<^verbatim>\<open>q_route_spec\<close>
  (oldest first), whether \<^verbatim>\<open>start\<close> has created \<^verbatim>\<open>observer_thread\<close>, the state of the
  outside world and the calls made so far.
\<close>

record 'w romana =
  conf :: conf
  key :: string
  connect_check_time :: int
  etcd_timeout_time :: int
  keep_running :: bool
  watch_id :: "int option"
  etcd :: "client option"
  q_route_spec :: "route_spec list"
  observer_thread :: bool
  world :: 'w
  calls :: "call list"

text \<open>\<^verbatim>\<open>__init__\<close>, with the defaults of the two keyword arguments.\<close>

definition romana_init :: "conf \<Rightarrow> 'w \<Rightarrow> 'w romana" where
  "romana_init cf w =
     \<lparr> conf = cf, key = ''/romana/ipam/data'', connect_check_time = 2,
       etcd_timeout_time = 2, keep_running = True, watch_id = None, etcd = None,
       q_route_spec = [], observer_thread = False, world = w, calls = [] \<rparr>"

section \<open>Loading the topology\<close>

text \<open>
  \<^verbatim>\<open>json.loads(self.etcd.get(self.key)[0])\<close>: the first component of what \<^verbatim>\<open>get\<close> returns
  is \<^verbatim>\<open>None\<close> when the key is absent, and \<^verbatim>\<open>json.loads(None)\<close> raises a TypeError.
\<close>

definition json_loads_value :: "'w env \<Rightarrow> string option \<Rightarrow> exn + pyval" where
  "json_loads_value env v = (case v of None \<Rightarrow> Inl TypeError | Some raw \<Rightarrow> json_loads env raw)"

text \<open>
  The body of the \<^verbatim>\<open>try\<close> of \<^verbatim>\<open>load_topology_send_route_spec\<close>, lines 55 to 62. With no
  client, \<^verbatim>\<open>self.etcd.get\<close> is an attribute of \<^verbatim>\<open>None\<close>. Line 61 hands the dict to the
  check and line 62 puts that same dict, as the check has left it.
\<close>

definition load_topology_try :: "'w env \<Rightarrow> 'w romana \<Rightarrow> (exn + unit) \<times> 'w romana" where
  "load_topology_try env s =
     (case etcd s of
        None \<Rightarrow> (Inl AttributeError, s)
      | Some c \<Rightarrow>
     (case client_get env c (key s) (world s) of (r, w1) \<Rightarrow>
     (let s1 = s\<lparr>world := w1, calls := calls s @ [CallGet c (key s)]\<rparr> in
     (case r of
        Inl e \<Rightarrow> (Inl e, s1)
      | Inr v \<Rightarrow>
     (case json_loads_value env v of
        Inl e \<Rightarrow> (Inl e, s1)
      | Inr d \<Rightarrow>
     (case build_route_spec d of
        Inl e \<Rightarrow> (Inl e, s1)
      | Inr route_spec \<Rightarrow>
     (let s2 = s1\<lparr>calls := calls s1 @ [CallValidate route_spec]\<rparr> in
     (case parse_route_spec_config env route_spec of
        Inl e \<Rightarrow> (Inl e, s2)
      | Inr route_spec' \<Rightarrow>
          (Inr (), s2\<lparr>q_route_spec := q_route_spec s2 @ [route_spec'],
                      calls := calls s2 @ [CallPut route_spec']\<rparr>)))))))))"

text \<open>\<^verbatim>\<open>load_topology_send_route_spec\<close>: the handler logs the exception and returns.\<close>

definition load_topology_send_route_spec ::
  "'w env \<Rightarrow> 'w romana \<Rightarrow> (exn + unit) \<times> 'w romana" where
  "load_topology_send_route_spec env s =
     (case load_topology_try env s of
        (Inl e, s') \<Rightarrow> (Inr (), s')
      | (Inr u, s') \<Rightarrow> (Inr u, s'))"

text \<open>\<^verbatim>\<open>event_callback\<close>: the handler of the watch loads the topology again.\<close>

definition event_callback :: "'w env \<Rightarrow> 'w romana \<Rightarrow> (exn + unit) \<times> 'w romana" where
  "event_callback env s = load_topology_send_route_spec env s"

section \<open>The connection\<close>

text \<open>\<^verbatim>\<open>etcd_check_status\<close>, lines 86 to 95.\<close>

definition etcd_check_status :: "'w env \<Rightarrow> 'w romana \<Rightarrow> (exn + bool) \<times> 'w romana" where
  "etcd_check_status env s =
     (case etcd s of
        None \<Rightarrow> (Inr False, s)
      | Some c \<Rightarrow>
     (case client_status env c (world s) of (r, w1) \<Rightarrow>
     (let s1 = s\<lparr>world := w1, calls := calls s @ [CallStatus c]\<rparr> in
     (case r of
        None \<Rightarrow> (Inr True, s1)
      | Some e \<Rightarrow> (Inr False, s1)))))"

text \<open>
  The condition of lines 102 and 103,
  \<^verbatim>\<open>not self.etcd or not self.etcd_check_status() or self.watch_id is None\<close>,
  evaluated from left to right: the status is only asked for when there is a client.
\<close>

definition connect_guard :: "'w env \<Rightarrow> 'w romana \<Rightarrow> (exn + bool) \<times> 'w romana" where
  "connect_guard env s =
     (case etcd s of
        None \<Rightarrow> (Inr True, s)
      | Some c \<Rightarrow>
     (case etcd_check_status env s of
        (Inl e, s1) \<Rightarrow> (Inl e, s1)
      | (Inr ok, s1) \<Rightarrow>
          if \<not> ok then (Inr True, s1) else (Inr (watch_id s1 = None), s1)))"

text \<open>The body of the \<^verbatim>\<open>try\<close> of lines 105 to 119.\<close>

definition connect_try :: "'w env \<Rightarrow> 'w romana \<Rightarrow> (exn + unit) \<times> 'w romana" where
  "connect_try env s =
     (case etcd3_client env (addr (conf s)) (port (conf s)) (etcd_timeout_time s) (world s)
      of (r, w1) \<Rightarrow>
     (let s1 = s\<lparr>world := w1,
                  calls := calls s @
                    [CallClient (addr (conf s)) (port (conf s)) (etcd_timeout_time s)]\<rparr> in
     (case r of
        Inl e \<Rightarrow> (Inl e, s1)
      | Inr c \<Rightarrow>
     (case load_topology_send_route_spec env (s1\<lparr>etcd := Some c\<rparr>) of
        (Inl e, s3) \<Rightarrow> (Inl e, s3)
      | (Inr u, s3) \<Rightarrow>
     (case etcd s3 of
        None \<Rightarrow> (Inl AttributeError, s3)
      | Some c' \<Rightarrow>
     (case client_add_watch_callback env c' (key s3) (world s3) of (r', w4) \<Rightarrow>
     (let s4 = s3\<lparr>world := w4, calls := calls s3 @ [CallAddWatch c' (key s3)]\<rparr> in
     (case r' of
        Inl e \<Rightarrow> (Inl e, s4)
      | Inr wid \<Rightarrow> (Inr (), s4\<lparr>watch_id := Some wid\<rparr>)))))))))"

text \<open>\<^verbatim>\<open>establish_etcd_connection_and_watch\<close>, with the handler of lines 120 to 124.\<close>

definition establish_etcd_connection_and_watch ::
  "'w env \<Rightarrow> 'w romana \<Rightarrow> (exn + unit) \<times> 'w romana" where
  "establish_etcd_connection_and_watch env s =
     (case connect_guard env s of
        (Inl e, s1) \<Rightarrow> (Inl e, s1)
      | (Inr g, s1) \<Rightarrow>
          if g then
            (case connect_try env s1 of
               (Inl e, s2) \<Rightarrow> (Inr (), s2\<lparr>etcd := None, watch_id := None\<rparr>)
             | (Inr u, s2) \<Rightarrow> (Inr (), s2))
          else (Inr (), s1))"

section \<open>Start and stop\<close>

text \<open>
  \<^verbatim>\<open>start\<close> creates and starts the thread. What the thread then does at the same time as
  its creator is not part of this sequential model.
\<close>

definition start :: "'w env \<Rightarrow> 'w romana \<Rightarrow> (exn + unit) \<times> 'w romana" where
  "start env s = (Inr (), s\<lparr>observer_thread := True, calls := calls s @ [CallThreadStart]\<rparr>)"

text \<open>
  \<^verbatim>\<open>stop\<close>, lines 165 to 170. \<^verbatim>\<open>if self.watch_id:\<close> is the truth value of the handle:
  \<^verbatim>\<open>None\<close> and the integer 0 are false. Nothing catches an exception here. Without
  \<^verbatim>\<open>start\<close> there is no attribute \<^verbatim>\<open>observer_thread\<close>.
\<close>

definition stop :: "'w env \<Rightarrow> 'w romana \<Rightarrow> (exn + unit) \<times> 'w romana" where
  "stop env s =
     (case
        (case watch_id s of
           None \<Rightarrow> (Inr (), s)
         | Some wid \<Rightarrow>
             if wid \<noteq> 0 then
               (case etcd s of
                  None \<Rightarrow> (Inl AttributeError, s)
                | Some c \<Rightarrow>
               (case client_cancel_watch env c wid (world s) of (r, w1) \<Rightarrow>
               (let s1 = s\<lparr>world := w1, calls := calls s @ [CallCancelWatch c wid]\<rparr> in
               (case r of Some e \<Rightarrow> (Inl e, s1) | None \<Rightarrow> (Inr (), s1)))))
             else (Inr (), s))
      of
        (Inl e, s1) \<Rightarrow> (Inl e, s1)
      | (Inr u, s1) \<Rightarrow>
     (let s2 = s1\<lparr>keep_running := False\<rparr> in
      if observer_thread s2 then (Inr (), s2\<lparr>calls := calls s2 @ [CallJoin]\<rparr>)
      else (Inl AttributeError, s2)))"

section \<open>The arguments\<close>

text \<open>
  \<^verbatim>\<open>check_arguments\<close>, lines 194 to 199, with \<^verbatim>\<open>utils.ip_check\<close> as a parameter that raises
  or returns.
\<close>

definition check_arguments :: "(string \<Rightarrow> exn option) \<Rightarrow> conf \<Rightarrow> exn + unit" where
  "check_arguments ip_check cf =
     (if \<not> (0 < port cf \<and> port cf < 65535) then Inl ArgsError
      else if \<not> (addr cf = ''localhost'') then
        (case ip_check (addr cf) of Some e \<Rightarrow> Inl e | None \<Rightarrow> Inr ())
      else Inr ())"

section \<open>Notions of the specification\<close>

text \<open>
  Two network entries under different names carry the same CIDR.
\<close>

definition duplicate_cidr :: "(string \<times> pyval) list \<Rightarrow> bool" where
  "duplicate_cidr nets =
     list_ex (\<lambda>a. list_ex (\<lambda>b. fst a \<noteq> fst b \<and> net_cidr (snd a) \<noteq> None \<and>
                                  net_cidr (snd a) = net_cidr (snd b)) nets) nets"

text \<open>
  A document without the \<open>networks\<close> field, or with a network entry without a \<open>cidr\<close>
  field or without a \<open>hosts\<close> field.
\<close>

definition malformed :: "pyval \<Rightarrow> bool" where
  "malformed d =
     (case field d ''networks'' of
        None \<Rightarrow> True
      | Some (PDict nets) \<Rightarrow>
          list_ex (\<lambda>kv. net_field (snd kv) ''cidr'' = None \<or> net_field (snd kv) ''hosts'' = None) nets
      | Some _ \<Rightarrow> False)"

text \<open>
  A load attempt fails when the fetch raises (also for want of a client), when the decoding
  raises, when the build raises, or when the check of the route spec raises.
\<close>

definition load_fails :: "'w env \<Rightarrow> 'w romana \<Rightarrow> bool" where
  "load_fails env s =
     (case etcd s of
        None \<Rightarrow> True
      | Some c \<Rightarrow>
     (case fst (client_get env c (key s) (world s)) of
        Inl e \<Rightarrow> True
      | Inr v \<Rightarrow>
     (case json_loads_value env v of
        Inl e \<Rightarrow> True
      | Inr d \<Rightarrow>
     (case build_route_spec d of
        Inl e \<Rightarrow> True
      | Inr rs \<Rightarrow>
     (case parse_route_spec_config env rs of
        Inl e \<Rightarrow> True
      | Inr rs' \<Rightarrow> False)))))"

text \<open>
  The state of the plugin right after \<^verbatim>\<open>etcd3.client\<close> has returned the client \<open>c\<close> and left
  the world in \<open>w\<close>.
\<close>

definition opened :: "'w romana \<Rightarrow> client \<Rightarrow> 'w \<Rightarrow> 'w romana" where
  "opened s c w =
     s\<lparr>world := w,
       calls := calls s @ [CallClient (addr (conf s)) (port (conf s)) (etcd_timeout_time s)],
       etcd := Some c\<rparr>"

text \<open>
  The calls of one topology load on the client \<open>c\<close> for the key \<open>k\<close>, with the check
  \<open>chk\<close> of the route spec: one \<^verbatim>\<open>get\<close>, then at most one check of a route spec; when
  the check raises nothing follows, and when it returns one \<^verbatim>\<open>put\<close> follows, of the route
  spec as the check has left it.
\<close>

definition one_load ::
  "client \<Rightarrow> string \<Rightarrow> (route_spec \<Rightarrow> exn + route_spec) \<Rightarrow> call list \<Rightarrow> bool" where
  "one_load c k chk ld =
     (case ld of
        [] \<Rightarrow> False
      | x # rest \<Rightarrow>
          x = CallGet c k \<and>
          (case rest of
             [] \<Rightarrow> True
           | y # rest' \<Rightarrow>
               (case y of
                  CallValidate rs \<Rightarrow>
                    (case chk rs of
                       Inl e \<Rightarrow> rest' = []
                     | Inr rs' \<Rightarrow> rest' = [CallPut rs'])
                | _ \<Rightarrow> False)))"

section \<open>Example collaborators, states and documents\<close>

text \<open>
  A store that answers every call, with a decoder that returns the document \<open>d\<close> and a
  check that accepts every route spec and leaves it as it is; its world counts the calls.
  The first watch on a client has the handle 0. The variants raise in one call each, the
  flaky one only while the world is younger than two calls. The last variant has a check
  that rewrites what it accepts: it drops the repeated hosts of every list.
\<close>

definition example_conf :: conf where
  "example_conf = \<lparr> addr = ''localhost'', port = 2379 \<rparr>"

definition example_env :: "pyval \<Rightarrow> nat env" where
  "example_env d =
     \<lparr> etcd3_client = (\<lambda>h p t w. (Inr 1, Suc w)),
       client_get = (\<lambda>c k w. (Inr (Some ''<document>''), Suc w)),
       client_status = (\<lambda>c w. (None, Suc w)),
       client_add_watch_callback = (\<lambda>c k w. (Inr 0, Suc w)),
       client_cancel_watch = (\<lambda>c i w. (None, Suc w)),
       json_loads = (\<lambda>raw. Inr d),
       parse_route_spec_config = (\<lambda>rs. Inr rs) \<rparr>"

definition failing_get_env :: "nat env" where
  "failing_get_env =
     (example_env scenario_document)
       \<lparr>client_get := (\<lambda>c k w. (Inl (OtherError ''unavailable''), Suc w))\<rparr>"

definition flaky_get_env :: "nat env" where
  "flaky_get_env =
     (example_env scenario_document)
       \<lparr>client_get := (\<lambda>c k w. if w < 2 then (Inl (OtherError ''unavailable''), Suc w)
                                 else (Inr (Some ''<document>''), Suc w))\<rparr>"

definition failing_watch_env :: "nat env" where
  "failing_watch_env =
     (example_env scenario_document)
       \<lparr>client_add_watch_callback := (\<lambda>c k w. (Inl (OtherError ''unavailable''), Suc w))\<rparr>"

definition failing_status_env :: "nat env" where
  "failing_status_env =
     (example_env scenario_document)
       \<lparr>client_status := (\<lambda>c w. (Some (OtherError ''unavailable''), Suc w))\<rparr>"

definition rewriting_env :: "pyval \<Rightarrow> nat env" where
  "rewriting_env d =
     (example_env d)
       \<lparr>parse_route_spec_config := (\<lambda>rs. Inr (map (\<lambda>kv. (fst kv, remdups (snd kv))) rs))\<rparr>"

text \<open>
  A new plugin object; one that is connected and watching; one that has published the
  route spec of the scenario; one with a client but no watch, before and after the probe
  of its status; and one that has connected and then been started.
\<close>

definition fresh :: "nat romana" where
  "fresh = romana_init example_conf 0"

definition connected :: "nat romana" where
  "connected = (romana_init example_conf 0)\<lparr>etcd := Some 1, watch_id := Some 0\<rparr>"

definition published :: "nat romana" where
  "published = connected\<lparr>q_route_spec := [scenario_route_spec]\<rparr>"

definition unwatched :: "nat romana" where
  "unwatched = (romana_init example_conf 0)\<lparr>etcd := Some 1\<rparr>"

definition probed :: "nat romana" where
  "probed = unwatched\<lparr>world := 1, calls := [CallStatus 1]\<rparr>"

definition started :: "nat romana" where
  "started =
     snd (start (example_env scenario_document)
       (snd (establish_etcd_connection_and_watch (example_env scenario_document) fresh)))"

text \<open>
  Two networks with the same CIDR; the same with a host listed twice; a document without
  \<open>networks\<close>; a document whose second network has no \<open>cidr\<close>.
\<close>

definition duplicate_networks :: "(string \<times> pyval) list" where
  "duplicate_networks =
     [(''net1'',
        PDict [(''groups'',
          PDict [(''cidr'', PStr ''10.0.0.0/24''),
                 (''hosts'', PList [PDict [(''ip'', PStr ''10.0.0.1'')]])])]),
      (''net2'',
        PDict [(''groups'',
          PDict [(''cidr'', PStr ''10.0.0.0/24''),
                 (''hosts'', PList [PDict [(''ip'', PStr ''10.0.0.2'')]])])])]"

definition duplicate_document :: pyval where
  "duplicate_document = PDict [(''networks'', PDict duplicate_networks)]"

definition repeated_networks :: "(string \<times> pyval) list" where
  "repeated_networks =
     [(''net1'',
        PDict [(''groups'',
          PDict [(''cidr'', PStr ''10.0.0.0/24''),
                 (''hosts'', PList [PDict [(''ip'', PStr ''10.0.0.1'')]])])]),
      (''net2'',
        PDict [(''groups'',
          PDict [(''cidr'', PStr ''10.0.0.0/24''),
                 (''hosts'', PList [PDict [(''ip'', PStr ''10.0.0.9'')],
                                    PDict [(''ip'', PStr ''10.0.0.2'')],
                                    PDict [(''ip'', PStr ''10.0.0.9'')]])])])]"

definition repeated_document :: pyval where
  "repeated_document = PDict [(''networks'', PDict repeated_networks)]"

definition no_networks_document :: pyval where
  "no_networks_document = PDict [(''nets'', PDict [])]"

definition no_cidr_document :: pyval where
  "no_cidr_document =
     PDict [(''networks'',
       PDict [(''net1'',
                PDict [(''groups'',
                  PDict [(''cidr'', PStr ''10.0.0.0/24''),
                         (''hosts'', PList [PDict [(''ip'', PStr ''10.0.0.1'')]])])]),
              (''net2'',
                PDict [(''groups'',
                  PDict [(''hosts'', PList [PDict [(''ip'', PStr ''10.0.0.2'')]])])])])]"

section \<open>Auxiliary notions for the proofs\<close>

text \<open>Every key of the route spec is a string.\<close>

definition str_keys :: "route_spec \<Rightarrow> bool" where
  "str_keys rs = (\<forall>k \<in> fst ` set rs. \<exists>c. k = PStr c)"

section \<open>Building the route spec\<close>

lemma py_eq_PStr: "py_eq k (PStr a) = (k = PStr a)"
  by (cases k) (auto simp: py_eq_def)

lemma subscript_Inr_iff: "subscript v k = Inr x \<longleftrightarrow> field v k = Some x"
  by (cases v) (auto split: option.splits)

lemma subscript_Inl_iff: "(\<exists>e. subscript v k = Inl e) \<longleftrightarrow> field v k = None"
  by (cases v) (auto split: option.splits)

lemma host_ips_those: "those (map (\<lambda>h. field h ''ip'') hs) = Some ips \<Longrightarrow> host_ips hs = Inr ips"
proof (induction hs arbitrary: ips)
  case Nil then show ?case by simp
next
  case (Cons h hs)
  then show ?case
    by (auto split: option.splits simp: subscript_Inr_iff[symmetric])
qed

lemma net_entry_listed: "listed nd = Some e \<Longrightarrow> net_entry nd = Inr e"
  unfolding listed_def net_cidr_def net_hosts_def net_field_def net_entry_def
  by (auto split: option.splits pyval.splits simp: subscript_Inr_iff[symmetric] host_ips_those)

lemma dict_set_map_fst:
  "\<forall>k' \<in> set (map fst rs). py_eq k' k = (k' = k) \<Longrightarrow>
   map fst (dict_set rs k v) = (if k \<in> set (map fst rs) then map fst rs else map fst rs @ [k])"
  by (induction rs) (force+)

lemma dict_set_map_of:
  "\<forall>k' \<in> set (map fst rs). py_eq k' k = (k' = k) \<Longrightarrow>
   map_of (dict_set rs k v) = (map_of rs)(k \<mapsto> v)"
  by (induction rs) auto

lemma str_keys_eq: "str_keys rs \<Longrightarrow> \<forall>k' \<in> set (map fst rs). py_eq k' (PStr c) = (k' = PStr c)"
  by (auto simp: str_keys_def py_eq_PStr)

lemma dict_set_str:
  assumes "str_keys rs"
  shows "map_of (dict_set rs (PStr c) v) = (map_of rs)(PStr c \<mapsto> v)"
    and "set (map fst (dict_set rs (PStr c) v)) = insert (PStr c) (set (map fst rs))"
    and "distinct (map fst rs) \<Longrightarrow> distinct (map fst (dict_set rs (PStr c) v))"
    and "str_keys (dict_set rs (PStr c) v)"
proof -
  note e = str_keys_eq[OF assms, of c]
  show "map_of (dict_set rs (PStr c) v) = (map_of rs)(PStr c \<mapsto> v)"
    by (rule dict_set_map_of[OF e])
  show k: "set (map fst (dict_set rs (PStr c) v)) = insert (PStr c) (set (map fst rs))"
    by (simp only: dict_set_map_fst[OF e]) auto
  show "distinct (map fst rs) \<Longrightarrow> distinct (map fst (dict_set rs (PStr c) v))"
    by (simp only: dict_set_map_fst[OF e]) auto
  show "str_keys (dict_set rs (PStr c) v)"
    using assms k by (auto simp: str_keys_def)
qed

lemma build_loop_wf:
  "list_all (\<lambda>kv. wf_net (snd kv)) nets \<Longrightarrow> str_keys rs \<Longrightarrow> distinct (map fst rs) \<Longrightarrow>
   \<exists>rs'. build_loop nets rs = Inr rs' \<and> str_keys rs' \<and> distinct (map fst rs') \<and>
         map_of rs' = map_of (rev (List.map_filter (\<lambda>kv. listed (snd kv)) nets) @ rs) \<and>
         set (map fst rs') = set (map fst (List.map_filter (\<lambda>kv. listed (snd kv)) nets)) \<union> set (map fst rs)"
proof (induction nets arbitrary: rs)
  case Nil
  then show ?case by simp
next
  case (Cons kv nets)
  obtain n nd where kv: "kv = (n, nd)" by (cases kv)
  from Cons.prems(1) kv have wf: "wf_net nd" and rest: "list_all (\<lambda>kv. wf_net (snd kv)) nets"
    by simp_all
  from wf obtain c ips where l: "listed nd = Some (PStr c, ips)"
    by (auto simp: wf_net_def listed_def)
  have ne: "net_entry nd = Inr (PStr c, ips)" by (rule net_entry_listed[OF l])
  note ds = dict_set_str[OF Cons.prems(2), of c ips]
  from Cons.IH[OF rest ds(4) ds(3)[OF Cons.prems(3)]]
  obtain rs' where r: "build_loop nets (dict_set rs (PStr c) ips) = Inr rs'"
    "str_keys rs'" "distinct (map fst rs')"
    "map_of rs' = map_of (rev (List.map_filter (\<lambda>kv. listed (snd kv)) nets) @ dict_set rs (PStr c) ips)"
    "set (map fst rs') = set (map fst (List.map_filter (\<lambda>kv. listed (snd kv)) nets)) \<union> set (map fst (dict_set rs (PStr c) ips))"
    by blast
  have b: "build_loop (kv # nets) rs = Inr rs'"
    using kv ne r(1) by simp
  have m: "map_of rs' = map_of (rev (List.map_filter (\<lambda>kv. listed (snd kv)) (kv # nets)) @ rs)"
    using r(4) kv l ds(1) by (simp add: map_add_def fun_eq_iff split: option.splits)
  have k: "set (map fst rs') = set (map fst (List.map_filter (\<lambda>kv. listed (snd kv)) (kv # nets))) \<union> set (map fst rs)"
    using r(5) kv l ds(2) by simp
  from b r(2,3) m k show ?case by blast
qed

lemma build_route_spec_wf:
  assumes "wf_topology d"
  shows "\<exists>rs. build_route_spec d = Inr rs \<and> distinct (map fst rs) \<and>
           set (map fst rs) = set (map fst (doc_entries d)) \<and>
           map_of rs = map_of (rev (doc_entries d))"
proof -
  from assms obtain nets where n: "doc_networks d = Some nets"
    and a: "list_all (\<lambda>kv. wf_net (snd kv)) nets"
    by (auto simp: wf_topology_def split: option.splits)
  from n have f: "field d ''networks'' = Some (PDict nets)"
    by (auto simp: doc_networks_def split: option.splits pyval.splits)
  then have s: "subscript d ''networks'' = Inr (PDict nets)"
    by (simp add: subscript_Inr_iff)
  have b: "build_route_spec d = build_loop nets []"
    by (simp add: build_route_spec_def s)
  have e: "doc_entries d = List.map_filter (\<lambda>kv. listed (snd kv)) nets"
    by (simp add: doc_entries_def n)
  from build_loop_wf[OF a, of "[]"] show ?thesis
    unfolding b e by (auto simp: str_keys_def)
qed






section \<open>A load attempt\<close>

text \<open>What \<^verbatim>\<open>load_topology_send_route_spec\<close> returns, stage by stage.\<close>

lemma load_no_client:
  "etcd s = None \<Longrightarrow> load_topology_send_route_spec env s = (Inr (), s)"
  by (simp add: load_topology_send_route_spec_def load_topology_try_def)

lemma load_fetch_raises:
  "etcd s = Some c \<Longrightarrow> client_get env c (key s) (world s) = (Inl e, w1) \<Longrightarrow>
   load_topology_send_route_spec env s =
     (Inr (), s\<lparr>world := w1, calls := calls s @ [CallGet c (key s)]\<rparr>)"
  by (simp add: load_topology_send_route_spec_def load_topology_try_def)

lemma load_parse_raises:
  "etcd s = Some c \<Longrightarrow> client_get env c (key s) (world s) = (Inr v, w1) \<Longrightarrow>
   json_loads_value env v = Inl e \<Longrightarrow>
   load_topology_send_route_spec env s =
     (Inr (), s\<lparr>world := w1, calls := calls s @ [CallGet c (key s)]\<rparr>)"
  by (simp add: load_topology_send_route_spec_def load_topology_try_def)

lemma load_build_raises:
  "etcd s = Some c \<Longrightarrow> client_get env c (key s) (world s) = (Inr v, w1) \<Longrightarrow>
   json_loads_value env v = Inr d \<Longrightarrow> build_route_spec d = Inl e \<Longrightarrow>
   load_topology_send_route_spec env s =
     (Inr (), s\<lparr>world := w1, calls := calls s @ [CallGet c (key s)]\<rparr>)"
  by (simp add: load_topology_send_route_spec_def load_topology_try_def)

lemma load_validate_raises:
  "etcd s = Some c \<Longrightarrow> client_get env c (key s) (world s) = (Inr v, w1) \<Longrightarrow>
   json_loads_value env v = Inr d \<Longrightarrow> build_route_spec d = Inr rs \<Longrightarrow>
   parse_route_spec_config env rs = Inl e \<Longrightarrow>
   load_topology_send_route_spec env s =
     (Inr (), s\<lparr>world := w1, calls := calls s @ [CallGet c (key s), CallValidate rs]\<rparr>)"
  by (simp add: load_topology_send_route_spec_def load_topology_try_def)

lemma load_publishes:
  "etcd s = Some c \<Longrightarrow> client_get env c (key s) (world s) = (Inr v, w1) \<Longrightarrow>
   json_loads_value env v = Inr d \<Longrightarrow> build_route_spec d = Inr rs \<Longrightarrow>
   parse_route_spec_config env rs = Inr rs' \<Longrightarrow>
   load_topology_send_route_spec env s =
     (Inr (), s\<lparr>world := w1,
                 calls := calls s @ [CallGet c (key s), CallValidate rs, CallPut rs'],
                 q_route_spec := q_route_spec s @ [rs']\<rparr>)"
  by (simp add: load_topology_send_route_spec_def load_topology_try_def)

lemma load_never_raises: "fst (load_topology_send_route_spec env s) = Inr ()"
  by (simp add: load_topology_send_route_spec_def split: prod.splits sum.splits)

lemma load_fails_effect:
  assumes "load_fails env s"
  shows "q_route_spec (snd (load_topology_send_route_spec env s)) = q_route_spec s \<and>
         (\<forall>rs. CallPut rs \<notin> set (drop (length (calls s))
                                     (calls (snd (load_topology_send_route_spec env s)))))"
proof (cases "etcd s")
  case None
  then show ?thesis by (simp add: load_no_client)
next
  case (Some c)
  obtain r w1 where g: "client_get env c (key s) (world s) = (r, w1)"
    by (cases "client_get env c (key s) (world s)")
  show ?thesis
  proof (cases r)
    case (Inl e)
    then show ?thesis using Some g by (simp add: load_fetch_raises)
  next
    case (Inr v)
    note v = this
    show ?thesis
    proof (cases "json_loads_value env v")
      case (Inl e)
      then show ?thesis using Some g v by (simp add: load_parse_raises)
    next
      case (Inr d)
      note d = this
      show ?thesis
      proof (cases "build_route_spec d")
        case (Inl e)
        then show ?thesis using Some g v d by (simp add: load_build_raises)
      next
        case (Inr rs)
        with assms Some g v d obtain e where "parse_route_spec_config env rs = Inl e"
          by (auto simp: load_fails_def split: sum.splits)
        then show ?thesis using Some g v d Inr by (simp add: load_validate_raises)
      qed
    qed
  qed
qed

lemma load_succeeds_effect:
  assumes "\<not> load_fails env s"
  shows "\<exists>rs. q_route_spec (snd (load_topology_send_route_spec env s)) = q_route_spec s @ [rs]"
proof -
  from assms obtain c where c: "etcd s = Some c"
    by (auto simp: load_fails_def split: option.splits)
  obtain r w1 where g: "client_get env c (key s) (world s) = (r, w1)"
    by (cases "client_get env c (key s) (world s)")
  from assms c g obtain v where v: "r = Inr v"
    by (auto simp: load_fails_def split: sum.splits)
  from assms c g v obtain d where d: "json_loads_value env v = Inr d"
    by (auto simp: load_fails_def split: sum.splits)
  from assms c g v d obtain rs where rs: "build_route_spec d = Inr rs"
    by (auto simp: load_fails_def split: sum.splits)
  from assms c g v d rs obtain rs' where p: "parse_route_spec_config env rs = Inr rs'"
    by (auto simp: load_fails_def split: sum.splits)
  from c g v d rs p show ?thesis by (simp add: load_publishes)
qed

text \<open>
  C4. \<^verbatim>\<open>load_topology_send_route_spec\<close> never raises. When the load attempt fails, at the
  fetch, the decoding, the build or the check of the route spec, the queue is as it was
  and no \<^verbatim>\<open>put\<close> is among the calls made. When it does not fail, one route spec is
  appended to the queue.
\<close>

theorem c4_failed_load_is_absorbed:
  "fst (load_topology_send_route_spec env s) = Inr () \<and>
   (load_fails env s \<longrightarrow>
      q_route_spec (snd (load_topology_send_route_spec env s)) = q_route_spec s \<and>
      (\<forall>rs. CallPut rs \<notin> set (drop (length (calls s))
                                  (calls (snd (load_topology_send_route_spec env s)))))) \<and>
   (\<not> load_fails env s \<longrightarrow>
      (\<exists>rs. q_route_spec (snd (load_topology_send_route_spec env s)) = q_route_spec s @ [rs]))"
  using load_never_raises load_fails_effect load_succeeds_effect by blast

text \<open>
  A plugin that has published the route spec of the scenario loads a document without
  \<open>networks\<close>: nothing is raised and the queue still holds that route spec alone.
\<close>

theorem c4_failed_load_is_absorbed_witness:
  "load_fails (example_env no_networks_document) published \<and>
   fst (load_topology_send_route_spec (example_env no_networks_document) published) = Inr () \<and>
   q_route_spec (snd (load_topology_send_route_spec (example_env no_networks_document) published))
     = [scenario_route_spec]"
  using c4_failed_load_is_absorbed[of "example_env no_networks_document" published]
  by (simp add: load_fails_def example_env_def published_def connected_def romana_init_def
      json_loads_value_def build_route_spec_def no_networks_document_def)

section \<open>Malformed documents\<close>

lemma net_entry_lacks_field:
  assumes "net_field nd ''cidr'' = None \<or> net_field nd ''hosts'' = None"
  shows "\<exists>e. net_entry nd = Inl e"
proof (cases "subscript nd ''groups''")
  case (Inl e)
  then show ?thesis by (simp add: net_entry_def)
next
  case (Inr g)
  then have f: "field nd ''groups'' = Some g" by (simp add: subscript_Inr_iff)
  from assms f have "field g ''cidr'' = None \<or> field g ''hosts'' = None"
    by (simp add: net_field_def)
  then have "(\<exists>e. subscript g ''cidr'' = Inl e) \<or> (\<exists>e. subscript g ''hosts'' = Inl e)"
    by (simp add: subscript_Inl_iff)
  then show ?thesis using Inr
    by (auto simp: net_entry_def split: sum.splits)
qed

lemma build_loop_bad_entry:
  "list_ex (\<lambda>kv. \<exists>e. net_entry (snd kv) = Inl e) nets \<Longrightarrow> \<exists>e. build_loop nets rs = Inl e"
proof (induction nets arbitrary: rs)
  case Nil
  then show ?case by simp
next
  case (Cons kv nets)
  obtain n nd where kv: "kv = (n, nd)" by (cases kv)
  show ?case
  proof (cases "net_entry nd")
    case (Inl e)
    then show ?thesis using kv by simp
  next
    case (Inr p)
    obtain cidr hosts where p: "p = (cidr, hosts)" by (cases p)
    from Cons.prems kv Inr have "list_ex (\<lambda>kv. \<exists>e. net_entry (snd kv) = Inl e) nets"
      by simp
    from Cons.IH[OF this] show ?thesis using kv Inr p by simp
  qed
qed

lemma malformed_build_fails:
  assumes "malformed d"
  shows "\<exists>e. build_route_spec d = Inl e"
proof (cases "field d ''networks''")
  case None
  then have "\<exists>e. subscript d ''networks'' = Inl e" by (simp add: subscript_Inl_iff)
  then show ?thesis by (auto simp: build_route_spec_def)
next
  case (Some n)
  with assms obtain nets where n: "n = PDict nets"
    and b: "list_ex (\<lambda>kv. net_field (snd kv) ''cidr'' = None \<or> net_field (snd kv) ''hosts'' = None) nets"
    by (auto simp: malformed_def split: pyval.splits)
  from b have "list_ex (\<lambda>kv. \<exists>e. net_entry (snd kv) = Inl e) nets"
    unfolding list_ex_iff using net_entry_lacks_field by blast
  from build_loop_bad_entry[OF this, of "[]"] obtain e where "build_loop nets [] = Inl e" ..
  moreover from Some n have "subscript d ''networks'' = Inr (PDict nets)"
    by (simp add: subscript_Inr_iff)
  ultimately show ?thesis by (simp add: build_route_spec_def)
qed

text \<open>
  C3. For a document without the \<open>networks\<close> field, or with a network entry without a
  \<open>cidr\<close> or without a \<open>hosts\<close> field, the build raises; a load that fetches and decodes
  such a document returns without raising, its only call is the \<^verbatim>\<open>get\<close>, and the queue is
  as it was.
\<close>

theorem c3_malformed_document_not_published:
  assumes "malformed d"
  shows "(\<exists>e. build_route_spec d = Inl e) \<and>
         (etcd s = Some c \<and> client_get env c (key s) (world s) = (Inr v, w1) \<and>
          json_loads_value env v = Inr d \<longrightarrow>
            load_topology_send_route_spec env s =
              (Inr (), s\<lparr>world := w1, calls := calls s @ [CallGet c (key s)]\<rparr>) \<and>
            q_route_spec (snd (load_topology_send_route_spec env s)) = q_route_spec s)"
proof -
  from malformed_build_fails[OF assms] obtain e where e: "build_route_spec d = Inl e" ..
  then show ?thesis by (auto simp: load_build_raises)
qed

text \<open>A document whose second network has no \<open>cidr\<close>.\<close>

theorem c3_malformed_document_not_published_witness:
  "malformed no_cidr_document \<and>
   build_route_spec no_cidr_document = Inl (KeyError ''cidr'') \<and>
   etcd published = Some 1 \<and>
   client_get (example_env no_cidr_document) 1 (key published) (world published)
     = (Inr (Some ''<document>''), 1) \<and>
   json_loads_value (example_env no_cidr_document) (Some ''<document>'') = Inr no_cidr_document \<and>
   fst (load_topology_send_route_spec (example_env no_cidr_document) published) = Inr () \<and>
   q_route_spec (snd (load_topology_send_route_spec (example_env no_cidr_document) published))
     = [scenario_route_spec]"
proof -
  have m: "malformed no_cidr_document"
    by (simp add: malformed_def no_cidr_document_def net_field_def)
  have b: "build_route_spec no_cidr_document = Inl (KeyError ''cidr'')"
    by (simp add: build_route_spec_def no_cidr_document_def net_entry_def)
  have h: "etcd published = Some 1 \<and>
     client_get (example_env no_cidr_document) 1 (key published) (world published)
       = (Inr (Some ''<document>''), 1) \<and>
     json_loads_value (example_env no_cidr_document) (Some ''<document>'') = Inr no_cidr_document"
    by (simp add: published_def connected_def romana_init_def example_env_def json_loads_value_def)
  from c3_malformed_document_not_published[OF m, of published 1 "example_env no_cidr_document"
      "Some ''<document>''" 1] h b
  show ?thesis using m by (simp add: published_def)
qed

section \<open>The same CIDR under two names\<close>

lemma map_of_rev_last:
  assumes "xs = ys @ [(c, v)] @ zs" and "c \<notin> fst ` set zs"
  shows "map_of (rev xs) c = Some v"
proof -
  from assms(2) have "c \<notin> fst ` set (rev zs)" by simp
  then have "map_of (rev zs) c = None" by (simp add: map_of_eq_None_iff)
  then show ?thesis using assms(1) by (simp add: map_add_def)
qed

text \<open>
  C2 as stated does not hold of the code. The networks \<open>net1\<close> and \<open>net2\<close> below carry
  the same CIDR; the build returns a route spec all the same, with the hosts of \<open>net2\<close>
  for that CIDR, and the load puts it on the queue.
\<close>

theorem c2_duplicate_cidr_counterexample:
  "doc_networks duplicate_document = Some duplicate_networks \<and>
   duplicate_cidr duplicate_networks \<and>
   build_route_spec duplicate_document = Inr [(PStr ''10.0.0.0/24'', [PStr ''10.0.0.2''])] \<and>
   q_route_spec (snd (load_topology_send_route_spec (example_env duplicate_document) connected))
     = [[(PStr ''10.0.0.0/24'', [PStr ''10.0.0.2''])]]"
proof -
  have b: "build_route_spec duplicate_document = Inr [(PStr ''10.0.0.0/24'', [PStr ''10.0.0.2''])]"
    by (simp add: build_route_spec_def duplicate_document_def duplicate_networks_def net_entry_def
        py_eq_def)
  have h: "etcd connected = Some 1 \<and> q_route_spec connected = [] \<and>
      client_get (example_env duplicate_document) 1 (key connected) (world connected)
        = (Inr (Some ''<document>''), 1) \<and>
      json_loads_value (example_env duplicate_document) (Some ''<document>'') = Inr duplicate_document \<and>
      parse_route_spec_config (example_env duplicate_document)
        [(PStr ''10.0.0.0/24'', [PStr ''10.0.0.2''])] = Inr [(PStr ''10.0.0.0/24'', [PStr ''10.0.0.2''])]"
    by (simp add: connected_def romana_init_def example_env_def json_loads_value_def)
  have l: "q_route_spec (snd (load_topology_send_route_spec (example_env duplicate_document) connected))
     = [[(PStr ''10.0.0.0/24'', [PStr ''10.0.0.2''])]]"
    using h b
      load_publishes[of connected 1 "example_env duplicate_document" "Some ''<document>''" 1
        duplicate_document "[(PStr ''10.0.0.0/24'', [PStr ''10.0.0.2''])]"
        "[(PStr ''10.0.0.0/24'', [PStr ''10.0.0.2''])]"]
    by simp
  have d: "doc_networks duplicate_document = Some duplicate_networks"
    by (simp add: doc_networks_def duplicate_document_def)
  have c: "duplicate_cidr duplicate_networks"
    by (simp add: duplicate_cidr_def duplicate_networks_def net_cidr_def net_field_def)
  show ?thesis using b d c l by simp
qed

text \<open>
  C2, amended. For every well-formed document in which two network entries under different
  names carry the same CIDR, the build does not fail: it returns a route spec in which the
  value of a CIDR is the host list of the entry iterated last among those that carry it.
  A load that fetches and decodes the document hands this route spec to the check and,
  when the check accepts it, puts it on the queue as the check has left it.
\<close>

theorem c2_duplicate_cidr_last_wins:
  assumes "wf_topology d" and "doc_networks d = Some nets" and "duplicate_cidr nets"
  shows "\<exists>rs. build_route_spec d = Inr rs \<and>
           (\<forall>xs k ips ys. doc_entries d = xs @ [(k, ips)] @ ys \<and> k \<notin> fst ` set ys \<longrightarrow>
                           map_of rs k = Some ips) \<and>
           (\<forall>rs'. etcd s = Some c \<and> client_get env c (key s) (world s) = (Inr v, w1) \<and>
                  json_loads_value env v = Inr d \<and>
                  parse_route_spec_config env rs = Inr rs' \<longrightarrow>
                  load_topology_send_route_spec env s =
                    (Inr (), s\<lparr>world := w1,
                                calls := calls s @
                                  [CallGet c (key s), CallValidate rs, CallPut rs'],
                                q_route_spec := q_route_spec s @ [rs']\<rparr>))"
proof -
  from build_route_spec_wf[OF assms(1)] obtain rs where
    r: "build_route_spec d = Inr rs" "map_of rs = map_of (rev (doc_entries d))"
    by blast
  have "\<forall>xs k ips ys. doc_entries d = xs @ [(k, ips)] @ ys \<and> k \<notin> fst ` set ys \<longrightarrow>
                           map_of rs k = Some ips"
  proof (intro allI impI)
    fix xs k ips ys
    assume a: "doc_entries d = xs @ [(k, ips)] @ ys \<and> k \<notin> fst ` set ys"
    then have "map_of (rev (doc_entries d)) k = Some ips"
      using map_of_rev_last[of "doc_entries d" xs k ips ys] by blast
    then show "map_of rs k = Some ips" by (simp add: r(2))
  qed
  moreover have "\<forall>rs'. etcd s = Some c \<and> client_get env c (key s) (world s) = (Inr v, w1) \<and>
                  json_loads_value env v = Inr d \<and>
                  parse_route_spec_config env rs = Inr rs' \<longrightarrow>
                  load_topology_send_route_spec env s =
                    (Inr (), s\<lparr>world := w1,
                                calls := calls s @
                                  [CallGet c (key s), CallValidate rs, CallPut rs'],
                                q_route_spec := q_route_spec s @ [rs']\<rparr>)"
  proof (intro allI impI)
    fix rs'
    assume a: "etcd s = Some c \<and> client_get env c (key s) (world s) = (Inr v, w1) \<and>
                  json_loads_value env v = Inr d \<and>
                  parse_route_spec_config env rs = Inr rs'"
    then show "load_topology_send_route_spec env s =
                    (Inr (), s\<lparr>world := w1,
                                calls := calls s @
                                  [CallGet c (key s), CallValidate rs, CallPut rs'],
                                q_route_spec := q_route_spec s @ [rs']\<rparr>)"
      using load_publishes[of s c env v w1 d rs rs'] r(1) by simp
  qed
  ultimately show ?thesis using r(1) by blast
qed

text \<open>
  The theorem at two networks with the same CIDR, the second with a host listed twice,
  and with a check that drops repeated hosts: the build keeps the host list of the second
  network as the document has it, and the queue receives it as the check has left it.
\<close>

lemma wf_repeated: "wf_topology repeated_document"
  by (simp add: wf_topology_def doc_networks_def repeated_document_def repeated_networks_def
      wf_net_def net_cidr_def net_hosts_def net_field_def)

lemma build_repeated:
  "build_route_spec repeated_document =
     Inr [(PStr ''10.0.0.0/24'', [PStr ''10.0.0.9'', PStr ''10.0.0.2'', PStr ''10.0.0.9''])]"
  by (simp add: build_route_spec_def repeated_document_def repeated_networks_def net_entry_def
      py_eq_def)

theorem c2_duplicate_cidr_last_wins_witness:
  "wf_topology repeated_document \<and>
   doc_networks repeated_document = Some repeated_networks \<and>
   duplicate_cidr repeated_networks \<and>
   build_route_spec repeated_document =
     Inr [(PStr ''10.0.0.0/24'', [PStr ''10.0.0.9'', PStr ''10.0.0.2'', PStr ''10.0.0.9''])] \<and>
   q_route_spec (snd (load_topology_send_route_spec (rewriting_env repeated_document) connected))
     = [[(PStr ''10.0.0.0/24'', [PStr ''10.0.0.2'', PStr ''10.0.0.9''])]]"
proof -
  have d: "doc_networks repeated_document = Some repeated_networks"
    by (simp add: doc_networks_def repeated_document_def)
  have c: "duplicate_cidr repeated_networks"
    by (simp add: duplicate_cidr_def repeated_networks_def net_cidr_def net_field_def)
  have h: "etcd connected = Some 1 \<and>
      client_get (rewriting_env repeated_document) 1 (key connected) (world connected)
        = (Inr (Some ''<document>''), 1) \<and>
      json_loads_value (rewriting_env repeated_document) (Some ''<document>'')
        = Inr repeated_document \<and>
      parse_route_spec_config (rewriting_env repeated_document)
        [(PStr ''10.0.0.0/24'', [PStr ''10.0.0.9'', PStr ''10.0.0.2'', PStr ''10.0.0.9''])]
        = Inr [(PStr ''10.0.0.0/24'', [PStr ''10.0.0.2'', PStr ''10.0.0.9''])]"
    by (simp add: connected_def romana_init_def rewriting_env_def example_env_def
        json_loads_value_def)
  have q: "q_route_spec connected = []"
    by (simp add: connected_def romana_init_def)
  note t = c2_duplicate_cidr_last_wins[OF wf_repeated d c,
      where s = connected and c = 1 and env = "rewriting_env repeated_document"
        and v = "Some ''<document>''" and ?w1.0 = 1]
  then obtain rs where r: "build_route_spec repeated_document = Inr rs"
    "\<forall>xs k ips ys. doc_entries repeated_document = xs @ [(k, ips)] @ ys \<and> k \<notin> fst ` set ys \<longrightarrow>
        map_of rs k = Some ips"
    "\<forall>rs'. etcd connected = Some 1 \<and>
        client_get (rewriting_env repeated_document) 1 (key connected) (world connected)
          = (Inr (Some ''<document>''), 1) \<and>
        json_loads_value (rewriting_env repeated_document) (Some ''<document>'')
          = Inr repeated_document \<and>
        parse_route_spec_config (rewriting_env repeated_document) rs = Inr rs' \<longrightarrow>
        load_topology_send_route_spec (rewriting_env repeated_document) connected =
          (Inr (), connected\<lparr>world := 1,
                      calls := calls connected @
                        [CallGet 1 (key connected), CallValidate rs, CallPut rs'],
                      q_route_spec := q_route_spec connected @ [rs']\<rparr>)"
    by (elim exE conjE)
  from r(1) have rs: "rs = [(PStr ''10.0.0.0/24'', [PStr ''10.0.0.9'', PStr ''10.0.0.2'', PStr ''10.0.0.9''])]"
    by (simp add: build_repeated)
  from r(3) h have "load_topology_send_route_spec (rewriting_env repeated_document) connected =
          (Inr (), connected\<lparr>world := 1,
                      calls := calls connected @
                        [CallGet 1 (key connected), CallValidate rs,
                         CallPut [(PStr ''10.0.0.0/24'', [PStr ''10.0.0.2'', PStr ''10.0.0.9''])]],
                      q_route_spec := q_route_spec connected @
                        [[(PStr ''10.0.0.0/24'', [PStr ''10.0.0.2'', PStr ''10.0.0.9''])]]\<rparr>)"
    unfolding rs by (elim allE impE) (assumption+)
  then have "q_route_spec (snd (load_topology_send_route_spec (rewriting_env repeated_document)
      connected)) = [[(PStr ''10.0.0.0/24'', [PStr ''10.0.0.2'', PStr ''10.0.0.9''])]]"
    by (simp add: q)
  with wf_repeated d c build_repeated show ?thesis by (intro conjI)
qed

section \<open>Connecting\<close>

text \<open>The shape of what one load does to the plugin, whatever the collaborators answer.\<close>

lemma load_shapeI:
  assumes "load_topology_send_route_spec env s =
       (Inr (), s\<lparr>world := w, calls := calls s @ ld, q_route_spec := q_route_spec s @ q\<rparr>)"
    and "etcd s = Some c" and "one_load c (key s) (parse_route_spec_config env) ld"
  shows "\<exists>w ld q. load_topology_send_route_spec env s =
       (Inr (), s\<lparr>world := w, calls := calls s @ ld, q_route_spec := q_route_spec s @ q\<rparr>) \<and>
     (case etcd s of None \<Rightarrow> ld = [] | Some c \<Rightarrow> one_load c (key s) (parse_route_spec_config env) ld)"
proof -
  have "case etcd s of None \<Rightarrow> ld = [] | Some c \<Rightarrow> one_load c (key s) (parse_route_spec_config env) ld"
    using assms(2,3) by simp
  with assms(1) show ?thesis by (intro exI conjI)
qed

lemma load_shape:
  "\<exists>w ld q. load_topology_send_route_spec env s =
       (Inr (), s\<lparr>world := w, calls := calls s @ ld, q_route_spec := q_route_spec s @ q\<rparr>) \<and>
     (case etcd s of None \<Rightarrow> ld = [] | Some c \<Rightarrow> one_load c (key s) (parse_route_spec_config env) ld)"
proof (cases "etcd s")
  case None
  have "load_topology_send_route_spec env s =
      (Inr (), s\<lparr>world := world s, calls := calls s @ [], q_route_spec := q_route_spec s @ []\<rparr>)"
    using None by (simp add: load_no_client)
  moreover have "case etcd s of None \<Rightarrow> ([]::call list) = [] | Some c \<Rightarrow> one_load c (key s) (parse_route_spec_config env) []"
    using None by simp
  ultimately show ?thesis by (intro exI conjI)
next
  case (Some c)
  note c = this
  obtain r w1 where g: "client_get env c (key s) (world s) = (r, w1)"
    by (cases "client_get env c (key s) (world s)")
  have o1: "one_load c (key s) (parse_route_spec_config env) [CallGet c (key s)]" by (simp add: one_load_def)
  show ?thesis
  proof (cases r)
    case (Inl e)
    have "load_topology_send_route_spec env s =
       (Inr (), s\<lparr>world := w1, calls := calls s @ [CallGet c (key s)],
                   q_route_spec := q_route_spec s @ []\<rparr>)"
      using c g Inl by (simp add: load_fetch_raises)
    then show ?thesis using c o1 by (rule load_shapeI)
  next
    case (Inr v)
    note v = this
    show ?thesis
    proof (cases "json_loads_value env v")
      case (Inl e)
      have "load_topology_send_route_spec env s =
         (Inr (), s\<lparr>world := w1, calls := calls s @ [CallGet c (key s)],
                     q_route_spec := q_route_spec s @ []\<rparr>)"
        using c g v Inl by (simp add: load_parse_raises)
      then show ?thesis using c o1 by (rule load_shapeI)
    next
      case (Inr d)
      note d = this
      show ?thesis
      proof (cases "build_route_spec d")
        case (Inl e)
        have "load_topology_send_route_spec env s =
           (Inr (), s\<lparr>world := w1, calls := calls s @ [CallGet c (key s)],
                       q_route_spec := q_route_spec s @ []\<rparr>)"
          using c g v d Inl by (simp add: load_build_raises)
        then show ?thesis using c o1 by (rule load_shapeI)
      next
        case (Inr rs)
        note rs = this
        show ?thesis
        proof (cases "parse_route_spec_config env rs")
          case (Inl e)
          note p = this
          have "load_topology_send_route_spec env s =
             (Inr (), s\<lparr>world := w1, calls := calls s @ [CallGet c (key s), CallValidate rs],
                         q_route_spec := q_route_spec s @ []\<rparr>)"
            using c g v d rs p by (simp add: load_validate_raises)
          moreover have "etcd s = Some c" by (rule c)
          moreover have "one_load c (key s) (parse_route_spec_config env)
              [CallGet c (key s), CallValidate rs]"
            by (simp add: one_load_def p)
          ultimately show ?thesis by (rule load_shapeI)
        next
          case (Inr rs')
          note p = this
          have "load_topology_send_route_spec env s =
             (Inr (), s\<lparr>world := w1,
                         calls := calls s @ [CallGet c (key s), CallValidate rs, CallPut rs'],
                         q_route_spec := q_route_spec s @ [rs']\<rparr>)"
            using c g v d rs p by (simp add: load_publishes)
          moreover have "etcd s = Some c" by (rule c)
          moreover have "one_load c (key s) (parse_route_spec_config env)
              [CallGet c (key s), CallValidate rs, CallPut rs']"
            by (simp add: one_load_def p)
          ultimately show ?thesis by (rule load_shapeI)
        qed
      qed
    qed
  qed
qed

text \<open>The body of the \<^verbatim>\<open>try\<close>, by what the collaborators answer.\<close>

lemma connect_try_open_raises:
  assumes "etcd3_client env (addr (conf s)) (port (conf s)) (etcd_timeout_time s) (world s)
             = (Inl e, w1)"
  shows "connect_try env s =
     (Inl e, s\<lparr>world := w1,
                calls := calls s @
                  [CallClient (addr (conf s)) (port (conf s)) (etcd_timeout_time s)]\<rparr>)"
  using assms by (simp add: connect_try_def)

lemma connect_try_opened:
  assumes "etcd3_client env (addr (conf s)) (port (conf s)) (etcd_timeout_time s) (world s)
             = (Inr c, w1)"
    and "load_topology_send_route_spec env (opened s c w1) = (Inr (), s3)"
    and "etcd s3 = Some c'"
    and "client_add_watch_callback env c' (key s3) (world s3) = (r', w4)"
  shows "connect_try env s =
     (case r' of
        Inl e \<Rightarrow> (Inl e, s3\<lparr>world := w4, calls := calls s3 @ [CallAddWatch c' (key s3)]\<rparr>)
      | Inr wid \<Rightarrow>
          (Inr (), s3\<lparr>world := w4, calls := calls s3 @ [CallAddWatch c' (key s3)],
                      watch_id := Some wid\<rparr>))"
  using assms by (simp add: connect_try_def opened_def split: sum.splits)

lemma establish_guarded:
  assumes "connect_guard env s = (Inr True, s1)"
  shows "establish_etcd_connection_and_watch env s =
     (case connect_try env s1 of
        (Inl e, s2) \<Rightarrow> (Inr (), s2\<lparr>etcd := None, watch_id := None\<rparr>)
      | (Inr u, s2) \<Rightarrow> (Inr (), s2))"
  using assms by (simp add: establish_etcd_connection_and_watch_def)

text \<open>The result of a connection attempt, by what the collaborators answer.\<close>

lemma establish_open_raises:
  assumes "connect_guard env s = (Inr True, s1)"
    and "etcd3_client env (addr (conf s1)) (port (conf s1)) (etcd_timeout_time s1) (world s1)
           = (Inl e, w1)"
  shows "establish_etcd_connection_and_watch env s =
     (Inr (), s1\<lparr>world := w1,
                 calls := calls s1 @
                   [CallClient (addr (conf s1)) (port (conf s1)) (etcd_timeout_time s1)],
                 etcd := None, watch_id := None\<rparr>)"
  by (simp add: establish_guarded[OF assms(1)] connect_try_open_raises[OF assms(2)])

lemma establish_opened:
  assumes "connect_guard env s = (Inr True, s1)"
    and "etcd3_client env (addr (conf s1)) (port (conf s1)) (etcd_timeout_time s1) (world s1)
           = (Inr c, w1)"
  shows "\<exists>w ld q r' w4.
     load_topology_send_route_spec env (opened s1 c w1) =
       (Inr (), (opened s1 c w1)\<lparr>world := w, calls := calls (opened s1 c w1) @ ld,
                   q_route_spec := q_route_spec s1 @ q\<rparr>) \<and>
     one_load c (key s1) (parse_route_spec_config env) ld \<and>
     client_add_watch_callback env c (key s1) w = (r', w4) \<and>
     establish_etcd_connection_and_watch env s =
       (Inr (), s1\<lparr>world := w4,
                   calls := calls s1 @
                     [CallClient (addr (conf s1)) (port (conf s1)) (etcd_timeout_time s1)] @
                     ld @ [CallAddWatch c (key s1)],
                   q_route_spec := q_route_spec s1 @ q,
                   etcd := (case r' of Inl e \<Rightarrow> None | Inr wid \<Rightarrow> Some c),
                   watch_id := (case r' of Inl e \<Rightarrow> None | Inr wid \<Rightarrow> Some wid)\<rparr>)"
proof -
  let ?o = "opened s1 c w1"
  have eo: "etcd ?o = Some c" and ko: "key ?o = key s1" and qo: "q_route_spec ?o = q_route_spec s1"
    by (simp_all add: opened_def)
  from load_shape[of env ?o] obtain w ld q where
    l: "load_topology_send_route_spec env ?o =
       (Inr (), ?o\<lparr>world := w, calls := calls ?o @ ld, q_route_spec := q_route_spec ?o @ q\<rparr>)"
    and ol: "one_load c (key s1) (parse_route_spec_config env) ld"
    unfolding eo ko by auto
  let ?s3 = "?o\<lparr>world := w, calls := calls ?o @ ld, q_route_spec := q_route_spec ?o @ q\<rparr>"
  obtain r' w4 where a: "client_add_watch_callback env c (key s1) w = (r', w4)"
    by (cases "client_add_watch_callback env c (key s1) w")
  have e3: "etcd ?s3 = Some c" by (simp add: opened_def)
  have a3: "client_add_watch_callback env c (key ?s3) (world ?s3) = (r', w4)"
    using a by (simp add: opened_def)
  note ct = connect_try_opened[OF assms(2) l e3 a3]
  have "establish_etcd_connection_and_watch env s =
       (Inr (), s1\<lparr>world := w4,
                   calls := calls s1 @
                     [CallClient (addr (conf s1)) (port (conf s1)) (etcd_timeout_time s1)] @
                     ld @ [CallAddWatch c (key s1)],
                   q_route_spec := q_route_spec s1 @ q,
                   etcd := (case r' of Inl e \<Rightarrow> None | Inr wid \<Rightarrow> Some c),
                   watch_id := (case r' of Inl e \<Rightarrow> None | Inr wid \<Rightarrow> Some wid)\<rparr>)"
    unfolding establish_guarded[OF assms(1)] ct
    by (cases r') (simp_all add: opened_def)
  moreover have "load_topology_send_route_spec env ?o =
       (Inr (), ?o\<lparr>world := w, calls := calls ?o @ ld, q_route_spec := q_route_spec s1 @ q\<rparr>)"
    using l by (simp only: qo)
  ultimately show ?thesis using ol a by (intro exI conjI)
qed

text \<open>
  C5 as stated does not hold of the code. The store below raises in the first \<^verbatim>\<open>get\<close> and
  answers afterwards. The connection attempt opens the client, its one load fails and
  publishes nothing, and the watch is registered: the attempt returns with the watch handle
  set and the queue empty. The first \<^verbatim>\<open>put\<close> of the connection is made by the handler of
  the watch, after the registration.
\<close>

theorem c5_first_publish_after_watch_counterexample:
  "connect_guard flaky_get_env fresh = (Inr True, fresh) \<and>
   watch_id (snd (establish_etcd_connection_and_watch flaky_get_env fresh)) = Some 0 \<and>
   q_route_spec (snd (establish_etcd_connection_and_watch flaky_get_env fresh)) = [] \<and>
   calls (snd (establish_etcd_connection_and_watch flaky_get_env fresh)) =
     [CallClient ''localhost'' 2379 2,
      CallGet 1 ''/romana/ipam/data'',
      CallAddWatch 1 ''/romana/ipam/data''] \<and>
   calls (snd (event_callback flaky_get_env
                 (snd (establish_etcd_connection_and_watch flaky_get_env fresh)))) =
     [CallClient ''localhost'' 2379 2,
      CallGet 1 ''/romana/ipam/data'',
      CallAddWatch 1 ''/romana/ipam/data'',
      CallGet 1 ''/romana/ipam/data'',
      CallValidate scenario_route_spec,
      CallPut scenario_route_spec]"
proof -
  have b: "build_route_spec scenario_document = Inr scenario_route_spec"
    by (simp add: build_route_spec_def scenario_document_def scenario_route_spec_def net_entry_def)
  have e: "establish_etcd_connection_and_watch flaky_get_env fresh =
      (Inr (), fresh\<lparr>world := 3,
         calls := [CallClient ''localhost'' 2379 2, CallGet 1 ''/romana/ipam/data'',
                   CallAddWatch 1 ''/romana/ipam/data''],
         etcd := Some 1, watch_id := Some 0\<rparr>)"
    by (simp add: establish_etcd_connection_and_watch_def connect_guard_def connect_try_def
        load_topology_send_route_spec_def load_topology_try_def
        flaky_get_env_def example_env_def fresh_def romana_init_def example_conf_def)
  have g: "connect_guard flaky_get_env fresh = (Inr True, fresh)"
    by (simp add: connect_guard_def fresh_def romana_init_def)
  have c: "calls (snd (event_callback flaky_get_env
      (fresh\<lparr>world := 3,
         calls := [CallClient ''localhost'' 2379 2, CallGet 1 ''/romana/ipam/data'',
                   CallAddWatch 1 ''/romana/ipam/data''],
         etcd := Some 1, watch_id := Some 0\<rparr>))) =
     [CallClient ''localhost'' 2379 2,
      CallGet 1 ''/romana/ipam/data'',
      CallAddWatch 1 ''/romana/ipam/data'',
      CallGet 1 ''/romana/ipam/data'',
      CallValidate scenario_route_spec,
      CallPut scenario_route_spec]"
    by (simp add: event_callback_def load_topology_send_route_spec_def load_topology_try_def
        json_loads_value_def b flaky_get_env_def example_env_def fresh_def romana_init_def)
  have q: "q_route_spec fresh = []" by (simp add: fresh_def romana_init_def)
  show ?thesis using g c q by (simp add: e)
qed

text \<open>
  C5, amended. When the guard of \<^verbatim>\<open>establish_etcd_connection_and_watch\<close> fires, the first
  call of the attempt opens the client. When the client is returned, the calls that follow
  are those of exactly one topology load, and the registration of the watch comes after
  them as the last call: a route spec that this load publishes, as the check has left it,
  is put on the queue before the watch is registered, and the queue after the attempt is
  the queue after this load. When opening the client raises, no other call is made.
\<close>

theorem c5_connect_order:
  assumes "connect_guard env s = (Inr True, s1)"
    and "etcd3_client env (addr (conf s1)) (port (conf s1)) (etcd_timeout_time s1) (world s1)
           = (r, w1)"
  shows "\<exists>tr. calls (snd (establish_etcd_connection_and_watch env s)) = calls s1 @ tr \<and>
     (case r of
        Inl e \<Rightarrow>
          tr = [CallClient (addr (conf s1)) (port (conf s1)) (etcd_timeout_time s1)]
      | Inr c \<Rightarrow>
          (\<exists>ld. tr = [CallClient (addr (conf s1)) (port (conf s1)) (etcd_timeout_time s1)] @
                      ld @ [CallAddWatch c (key s1)] \<and>
                one_load c (key s1) (parse_route_spec_config env) ld \<and>
                calls (snd (load_topology_send_route_spec env (opened s1 c w1))) =
                  calls (opened s1 c w1) @ ld) \<and>
          q_route_spec (snd (establish_etcd_connection_and_watch env s)) =
            q_route_spec (snd (load_topology_send_route_spec env (opened s1 c w1))))"
proof (cases r)
  case (Inl e)
  with establish_open_raises[OF assms(1), of e w1] assms(2) show ?thesis by simp
next
  case (Inr c)
  with assms(2) have o: "etcd3_client env (addr (conf s1)) (port (conf s1)) (etcd_timeout_time s1)
      (world s1) = (Inr c, w1)" by simp
  from establish_opened[OF assms(1) o] obtain w ld q r' w4 where
    l: "load_topology_send_route_spec env (opened s1 c w1) =
       (Inr (), (opened s1 c w1)\<lparr>world := w, calls := calls (opened s1 c w1) @ ld,
                   q_route_spec := q_route_spec s1 @ q\<rparr>)"
    and ol: "one_load c (key s1) (parse_route_spec_config env) ld"
    and a: "client_add_watch_callback env c (key s1) w = (r', w4)"
    and e: "establish_etcd_connection_and_watch env s =
       (Inr (), s1\<lparr>world := w4,
                   calls := calls s1 @
                     [CallClient (addr (conf s1)) (port (conf s1)) (etcd_timeout_time s1)] @
                     ld @ [CallAddWatch c (key s1)],
                   q_route_spec := q_route_spec s1 @ q,
                   etcd := (case r' of Inl e \<Rightarrow> None | Inr wid \<Rightarrow> Some c),
                   watch_id := (case r' of Inl e \<Rightarrow> None | Inr wid \<Rightarrow> Some wid)\<rparr>)"
    by (elim exE conjE)
  have "calls (snd (establish_etcd_connection_and_watch env s)) =
          calls s1 @ [CallClient (addr (conf s1)) (port (conf s1)) (etcd_timeout_time s1)] @
                      ld @ [CallAddWatch c (key s1)]"
    by (simp add: e)
  moreover have "calls (snd (load_topology_send_route_spec env (opened s1 c w1))) =
                  calls (opened s1 c w1) @ ld"
    by (simp add: l)
  moreover have "q_route_spec (snd (establish_etcd_connection_and_watch env s)) =
            q_route_spec (snd (load_topology_send_route_spec env (opened s1 c w1)))"
    by (simp add: e l)
  ultimately show ?thesis using ol Inr by simp
qed

text \<open>
  A new plugin object against a store that answers every call, with a check that drops
  repeated hosts: the check receives the route spec as built and the queue the route spec
  as the check has left it, before the watch is registered.
\<close>

theorem c5_connect_order_witness:
  "connect_guard (rewriting_env repeated_document) fresh = (Inr True, fresh) \<and>
   etcd3_client (rewriting_env repeated_document) (addr (conf fresh)) (port (conf fresh))
     (etcd_timeout_time fresh) (world fresh) = (Inr 1, 1) \<and>
   calls (snd (establish_etcd_connection_and_watch (rewriting_env repeated_document) fresh)) =
     [CallClient ''localhost'' 2379 2,
      CallGet 1 ''/romana/ipam/data'',
      CallValidate [(PStr ''10.0.0.0/24'', [PStr ''10.0.0.9'', PStr ''10.0.0.2'', PStr ''10.0.0.9''])],
      CallPut [(PStr ''10.0.0.0/24'', [PStr ''10.0.0.2'', PStr ''10.0.0.9''])],
      CallAddWatch 1 ''/romana/ipam/data'']"
proof -
  have g: "connect_guard (rewriting_env repeated_document) fresh = (Inr True, fresh)"
    by (simp add: connect_guard_def fresh_def romana_init_def)
  have o: "etcd3_client (rewriting_env repeated_document) (addr (conf fresh)) (port (conf fresh))
     (etcd_timeout_time fresh) (world fresh) = (Inr 1, 1)"
    by (simp add: rewriting_env_def example_env_def fresh_def romana_init_def)
  have l: "calls (snd (load_topology_send_route_spec (rewriting_env repeated_document)
        (opened fresh 1 1)))
      = calls (opened fresh 1 1) @
        [CallGet 1 ''/romana/ipam/data'',
         CallValidate [(PStr ''10.0.0.0/24'', [PStr ''10.0.0.9'', PStr ''10.0.0.2'', PStr ''10.0.0.9''])],
         CallPut [(PStr ''10.0.0.0/24'', [PStr ''10.0.0.2'', PStr ''10.0.0.9''])]]"
    using load_publishes[of "opened fresh 1 1" 1 "rewriting_env repeated_document"
        "Some ''<document>''" 2 repeated_document
        "[(PStr ''10.0.0.0/24'', [PStr ''10.0.0.9'', PStr ''10.0.0.2'', PStr ''10.0.0.9''])]"
        "[(PStr ''10.0.0.0/24'', [PStr ''10.0.0.2'', PStr ''10.0.0.9''])]"]
      build_repeated
    by (simp add: opened_def fresh_def romana_init_def rewriting_env_def example_env_def
        json_loads_value_def)
  from c5_connect_order[OF g o] obtain tr ld where
    t: "calls (snd (establish_etcd_connection_and_watch (rewriting_env repeated_document) fresh))
          = calls fresh @ tr"
       "tr = [CallClient (addr (conf fresh)) (port (conf fresh)) (etcd_timeout_time fresh)] @
                      ld @ [CallAddWatch 1 (key fresh)]"
       "calls (snd (load_topology_send_route_spec (rewriting_env repeated_document)
            (opened fresh 1 1))) = calls (opened fresh 1 1) @ ld"
    by auto
  from t(3) l have "ld = [CallGet 1 ''/romana/ipam/data'',
      CallValidate [(PStr ''10.0.0.0/24'', [PStr ''10.0.0.9'', PStr ''10.0.0.2'', PStr ''10.0.0.9''])],
      CallPut [(PStr ''10.0.0.0/24'', [PStr ''10.0.0.2'', PStr ''10.0.0.9''])]]" by simp
  with t(1,2) g o show ?thesis
    by (simp add: fresh_def romana_init_def example_conf_def)
qed

text \<open>
  C6 as stated does not hold of the code. With a store whose \<^verbatim>\<open>get\<close> raises, the initial
  load of a connection attempt raises inside \<^verbatim>\<open>load_topology_send_route_spec\<close>, which
  catches it; the attempt goes on to register the watch and returns with the client and
  the watch handle both set, and with nothing published.
\<close>

theorem c6_load_failure_keeps_handles_counterexample:
  "connect_guard failing_get_env fresh = (Inr True, fresh) \<and>
   etcd3_client failing_get_env (addr (conf fresh)) (port (conf fresh))
     (etcd_timeout_time fresh) (world fresh) = (Inr 1, 1) \<and>
   client_get failing_get_env 1 (key fresh) 1 = (Inl (OtherError ''unavailable''), 2) \<and>
   etcd (snd (establish_etcd_connection_and_watch failing_get_env fresh)) = Some 1 \<and>
   watch_id (snd (establish_etcd_connection_and_watch failing_get_env fresh)) = Some 0 \<and>
   q_route_spec (snd (establish_etcd_connection_and_watch failing_get_env fresh)) = [] \<and>
   calls (snd (establish_etcd_connection_and_watch failing_get_env fresh)) =
     [CallClient ''localhost'' 2379 2,
      CallGet 1 ''/romana/ipam/data'',
      CallAddWatch 1 ''/romana/ipam/data'']"
  by (simp add: establish_etcd_connection_and_watch_def connect_guard_def connect_try_def
      load_topology_send_route_spec_def load_topology_try_def
      failing_get_env_def example_env_def fresh_def romana_init_def example_conf_def)

text \<open>
  C6, amended. A connection attempt never raises. When opening the client raises, or when
  the registration of the watch raises, both the client and the watch handle are
  \<^verbatim>\<open>None\<close> when it returns. An exception raised within the initial load does not reach
  the handler of the attempt: whatever the load did, the watch is registered next, and
  when that registration returns a handle, the client and this handle are set.
\<close>

theorem c6_connect_failure_clears_handles:
  assumes "connect_guard env s = (Inr True, s1)"
    and "etcd3_client env (addr (conf s1)) (port (conf s1)) (etcd_timeout_time s1) (world s1)
           = (r, w1)"
  shows "fst (establish_etcd_connection_and_watch env s) = Inr () \<and>
     (case r of
        Inl e \<Rightarrow>
          etcd (snd (establish_etcd_connection_and_watch env s)) = None \<and>
          watch_id (snd (establish_etcd_connection_and_watch env s)) = None
      | Inr c \<Rightarrow>
          (case fst (client_add_watch_callback env c (key s1)
                       (world (snd (load_topology_send_route_spec env (opened s1 c w1))))) of
             Inl e \<Rightarrow>
               etcd (snd (establish_etcd_connection_and_watch env s)) = None \<and>
               watch_id (snd (establish_etcd_connection_and_watch env s)) = None
           | Inr wid \<Rightarrow>
               etcd (snd (establish_etcd_connection_and_watch env s)) = Some c \<and>
               watch_id (snd (establish_etcd_connection_and_watch env s)) = Some wid))"
proof (cases r)
  case (Inl e)
  with establish_open_raises[OF assms(1), of e w1] assms(2) show ?thesis by simp
next
  case (Inr c)
  with assms(2) have o: "etcd3_client env (addr (conf s1)) (port (conf s1)) (etcd_timeout_time s1)
      (world s1) = (Inr c, w1)" by simp
  from establish_opened[OF assms(1) o] obtain w ld q r' w4 where
    l: "load_topology_send_route_spec env (opened s1 c w1) =
       (Inr (), (opened s1 c w1)\<lparr>world := w, calls := calls (opened s1 c w1) @ ld,
                   q_route_spec := q_route_spec s1 @ q\<rparr>)"
    and ol: "one_load c (key s1) (parse_route_spec_config env) ld"
    and a: "client_add_watch_callback env c (key s1) w = (r', w4)"
    and e: "establish_etcd_connection_and_watch env s =
       (Inr (), s1\<lparr>world := w4,
                   calls := calls s1 @
                     [CallClient (addr (conf s1)) (port (conf s1)) (etcd_timeout_time s1)] @
                     ld @ [CallAddWatch c (key s1)],
                   q_route_spec := q_route_spec s1 @ q,
                   etcd := (case r' of Inl e \<Rightarrow> None | Inr wid \<Rightarrow> Some c),
                   watch_id := (case r' of Inl e \<Rightarrow> None | Inr wid \<Rightarrow> Some wid)\<rparr>)"
    by (elim exE conjE)
  have w: "world (snd (load_topology_send_route_spec env (opened s1 c w1))) = w"
    by (simp add: l)
  show ?thesis by (cases r') (simp_all add: Inr w a e)
qed

text \<open>
  A plugin with a client but no watch, against a store whose registration of a watch
  raises: the client is cleared.
\<close>

theorem c6_connect_failure_clears_handles_witness:
  "etcd unwatched = Some 1 \<and>
   connect_guard failing_watch_env unwatched = (Inr True, probed) \<and>
   etcd3_client failing_watch_env (addr (conf probed)) (port (conf probed))
     (etcd_timeout_time probed) (world probed) = (Inr 1, 2) \<and>
   fst (establish_etcd_connection_and_watch failing_watch_env unwatched) = Inr () \<and>
   etcd (snd (establish_etcd_connection_and_watch failing_watch_env unwatched)) = None \<and>
   watch_id (snd (establish_etcd_connection_and_watch failing_watch_env unwatched)) = None"
proof -
  have g: "connect_guard failing_watch_env unwatched = (Inr True, probed)"
    by (simp add: connect_guard_def etcd_check_status_def unwatched_def probed_def
        failing_watch_env_def example_env_def romana_init_def)
  have o: "etcd3_client failing_watch_env (addr (conf probed)) (port (conf probed))
     (etcd_timeout_time probed) (world probed) = (Inr 1, 2)"
    by (simp add: failing_watch_env_def example_env_def probed_def)
  have a: "\<And>c k w. fst (client_add_watch_callback failing_watch_env c k w)
      = Inl (OtherError ''unavailable'')"
    by (simp add: failing_watch_env_def)
  have e: "etcd unwatched = Some 1" by (simp add: unwatched_def)
  from c6_connect_failure_clears_handles[OF g o] show ?thesis
    using g o e by (simp add: a)
qed

text \<open>
  C7. With a client whose status call succeeds and with a watch handle,
  \<^verbatim>\<open>establish_etcd_connection_and_watch\<close> returns after the status call alone: no client
  is opened, nothing is loaded, no watch is registered, and the client, the watch handle
  and the queue are as they were.
\<close>

theorem c7_healthy_connection_is_kept:
  assumes "etcd s = Some c" and "client_status env c (world s) = (None, w1)"
    and "watch_id s = Some wid"
  shows "establish_etcd_connection_and_watch env s =
           (Inr (), s\<lparr>world := w1, calls := calls s @ [CallStatus c]\<rparr>) \<and>
         etcd (snd (establish_etcd_connection_and_watch env s)) = Some c \<and>
         watch_id (snd (establish_etcd_connection_and_watch env s)) = Some wid \<and>
         q_route_spec (snd (establish_etcd_connection_and_watch env s)) = q_route_spec s"
  using assms
  by (simp add: establish_etcd_connection_and_watch_def connect_guard_def etcd_check_status_def)

text \<open>A connected and watching plugin against a store that answers every call.\<close>

theorem c7_healthy_connection_is_kept_witness:
  "etcd connected = Some 1 \<and>
   client_status (example_env scenario_document) 1 (world connected) = (None, 1) \<and>
   watch_id connected = Some 0 \<and>
   establish_etcd_connection_and_watch (example_env scenario_document) connected =
     (Inr (), connected\<lparr>world := 1, calls := calls connected @ [CallStatus 1]\<rparr>)"
proof -
  have h: "etcd connected = Some 1"
    "client_status (example_env scenario_document) 1 (world connected) = (None, 1)"
    "watch_id connected = Some 0"
    by (simp_all add: connected_def romana_init_def example_env_def)
  from c7_healthy_connection_is_kept[OF h] h show ?thesis by simp
qed

text \<open>
  C10. \<^verbatim>\<open>etcd_check_status\<close> never raises and returns a boolean: \<^verbatim>\<open>True\<close> exactly when
  there is a client and its status call succeeds, \<^verbatim>\<open>False\<close> when there is no client and
  when the status call raises.
\<close>

theorem c10_etcd_check_status_total:
  "\<exists>b s'. etcd_check_status env s = (Inr b, s') \<and>
          (b \<longleftrightarrow> (\<exists>c. etcd s = Some c \<and> fst (client_status env c (world s)) = None)) \<and>
          (etcd s = None \<longrightarrow> \<not> b) \<and>
          (\<forall>c e. etcd s = Some c \<and> fst (client_status env c (world s)) = Some e \<longrightarrow> \<not> b)"
  by (auto simp: etcd_check_status_def Let_def split: option.splits prod.splits)

text \<open>No client; a status call that raises; a status call that succeeds.\<close>

theorem c10_etcd_check_status_total_witness:
  "fst (etcd_check_status (example_env scenario_document) fresh) = Inr False \<and>
   fst (etcd_check_status failing_status_env connected) = Inr False \<and>
   fst (etcd_check_status (example_env scenario_document) connected) = Inr True"
  using c10_etcd_check_status_total[of "example_env scenario_document" fresh]
    c10_etcd_check_status_total[of failing_status_env connected]
    c10_etcd_check_status_total[of "example_env scenario_document" connected]
  by (simp add: etcd_check_status_def fresh_def connected_def romana_init_def example_env_def
      failing_status_env_def)

section \<open>Checking the arguments\<close>

text \<open>
  C8. For the address \<open>localhost\<close>, \<^verbatim>\<open>check_arguments\<close> raises exactly when the port is
  not from 1 to 65534, and what it raises then is an \<^verbatim>\<open>ArgsError\<close>; for every port from 1
  to 65534 it returns.
\<close>

theorem c8_check_arguments_port:
  assumes "addr cf = ''localhost''"
  shows "(check_arguments ip_check cf = Inl ArgsError \<longleftrightarrow> \<not> (1 \<le> port cf \<and> port cf \<le> 65534)) \<and>
         (check_arguments ip_check cf = Inr () \<longleftrightarrow> (1 \<le> port cf \<and> port cf \<le> 65534)) \<and>
         ((\<exists>e. check_arguments ip_check cf = Inl e) \<longleftrightarrow> \<not> (1 \<le> port cf \<and> port cf \<le> 65534))"
  using assms by (auto simp: check_arguments_def)

text \<open>The ports 2379, 65534, 1, 65535, 0 and -1.\<close>

theorem c8_check_arguments_port_witness:
  "addr example_conf = ''localhost'' \<and>
   check_arguments (\<lambda>a. None) example_conf = Inr () \<and>
   check_arguments (\<lambda>a. None) (example_conf\<lparr>port := 65534\<rparr>) = Inr () \<and>
   check_arguments (\<lambda>a. None) (example_conf\<lparr>port := 1\<rparr>) = Inr () \<and>
   check_arguments (\<lambda>a. None) (example_conf\<lparr>port := 65535\<rparr>) = Inl ArgsError \<and>
   check_arguments (\<lambda>a. None) (example_conf\<lparr>port := 0\<rparr>) = Inl ArgsError \<and>
   check_arguments (\<lambda>a. None) (example_conf\<lparr>port := - 1\<rparr>) = Inl ArgsError"
  using c8_check_arguments_port[of example_conf "\<lambda>a. None"]
    c8_check_arguments_port[of "example_conf\<lparr>port := 65534\<rparr>" "\<lambda>a. None"]
    c8_check_arguments_port[of "example_conf\<lparr>port := 1\<rparr>" "\<lambda>a. None"]
    c8_check_arguments_port[of "example_conf\<lparr>port := 65535\<rparr>" "\<lambda>a. None"]
    c8_check_arguments_port[of "example_conf\<lparr>port := 0\<rparr>" "\<lambda>a. None"]
    c8_check_arguments_port[of "example_conf\<lparr>port := - 1\<rparr>" "\<lambda>a. None"]
  by (simp add: example_conf_def)

section \<open>Stopping\<close>

text \<open>
  C9. A plugin connects to a store that gives the handle 0 to the watch, is started and
  then stopped. \<^verbatim>\<open>stop\<close> clears the running flag and joins the thread, but the watch is
  not cancelled: \<^verbatim>\<open>if self.watch_id:\<close> takes the handle 0 for no handle, where the guard
  of line 103 asks \<^verbatim>\<open>self.watch_id is None\<close>. With the handle 5 in its place the watch
  is cancelled before the join. That \<^verbatim>\<open>join\<close> waits for the thread to end is outside
  this sequential model.
\<close>

theorem c9_stop_leaves_watch_zero_registered:
  "etcd started = Some 1 \<and>
   watch_id started = Some 0 \<and>
   observer_thread started \<and>
   fst (stop (example_env scenario_document) started) = Inr () \<and>
   keep_running (snd (stop (example_env scenario_document) started)) = False \<and>
   calls (snd (stop (example_env scenario_document) started)) =
     [CallClient ''localhost'' 2379 2,
      CallGet 1 ''/romana/ipam/data'',
      CallValidate scenario_route_spec,
      CallPut scenario_route_spec,
      CallAddWatch 1 ''/romana/ipam/data'',
      CallThreadStart,
      CallJoin] \<and>
   calls (snd (stop (example_env scenario_document) (started\<lparr>watch_id := Some 5\<rparr>))) =
     [CallClient ''localhost'' 2379 2,
      CallGet 1 ''/romana/ipam/data'',
      CallValidate scenario_route_spec,
      CallPut scenario_route_spec,
      CallAddWatch 1 ''/romana/ipam/data'',
      CallThreadStart,
      CallCancelWatch 1 5,
      CallJoin]"
proof -
  have b: "build_route_spec scenario_document = Inr scenario_route_spec"
    by (simp add: build_route_spec_def scenario_document_def scenario_route_spec_def net_entry_def)
  have s: "started =
     fresh\<lparr>world := 3,
           calls := [CallClient ''localhost'' 2379 2, CallGet 1 ''/romana/ipam/data'',
                     CallValidate scenario_route_spec, CallPut scenario_route_spec,
                     CallAddWatch 1 ''/romana/ipam/data'', CallThreadStart],
           q_route_spec := [scenario_route_spec],
           etcd := Some 1, watch_id := Some 0, observer_thread := True\<rparr>"
    by (simp add: started_def start_def establish_etcd_connection_and_watch_def connect_guard_def
        connect_try_def load_topology_send_route_spec_def load_topology_try_def
        json_loads_value_def b example_env_def fresh_def romana_init_def example_conf_def)
  show ?thesis
    by (simp add: s stop_def example_env_def fresh_def romana_init_def)
qed

end
